theory Spec2Isabelle
  imports Complex_Main
begin

section \<open>Parameters of the engine\<close>

text \<open>
  The attributes that \<open>RapaNuiEcosystem.__init__\<close> installs on the engine object.
  Python floats and ints are modelled as real numbers: no rounding and no overflow.
\<close>

record params =
  rat_intrinsic_growth :: real
  rat_natural_mortality :: real
  rat_base_carrying_capacity_per_tree :: real
  rat_peak_carrying_capacity_per_tree :: real
  nut_season_duration :: real
  rat_minimum_viable_population :: real
  palm_maturation_time :: real
  palm_max_lifespan :: real
  palm_natural_mortality_young :: real
  palm_natural_mortality_mature :: real
  palm_senescence_age :: real
  palm_max_reproduction :: real
  seed_predation_efficiency :: real
  palm_refugia_effect :: real
  initial_humans :: real
  human_carrying_capacity :: real
  human_intrinsic_growth :: real
  clearing_per_person_per_year :: real
  agricultural_intensification :: real
  clearing_efficiency_decline :: real
  enable_human_clearing :: bool
  rat_harvest_rate :: real
  initial_rats :: real
  initial_mature_palms :: real
  initial_young_palms :: real
  initial_mature_age :: real

definition init :: params where
  "init = \<lparr>
     rat_intrinsic_growth = 2.5,
     rat_natural_mortality = 1.0,
     rat_base_carrying_capacity_per_tree = 0.5,
     rat_peak_carrying_capacity_per_tree = 4.0,
     nut_season_duration = 0.25,
     rat_minimum_viable_population = 50,
     palm_maturation_time = 70,
     palm_max_lifespan = 500,
     palm_natural_mortality_young = 0.01,
     palm_natural_mortality_mature = 0.005,
     palm_senescence_age = 400,
     palm_max_reproduction = 0.025,
     seed_predation_efficiency = 0.95,
     palm_refugia_effect = 0.0001,
     initial_humans = 20,
     human_carrying_capacity = 3000,
     human_intrinsic_growth = 0.025,
     clearing_per_person_per_year = 5.0,
     agricultural_intensification = 1.003,
     clearing_efficiency_decline = 0.9995,
     enable_human_clearing = True,
     rat_harvest_rate = 0.25,
     initial_rats = 2,
     initial_mature_palms = 9000000,
     initial_young_palms = 6000000,
     initial_mature_age = 150 \<rparr>"

section \<open>Faults\<close>

text \<open>
  Division of Python numbers by zero raises \<open>ZeroDivisionError\<close>. Division of a numpy
  scalar by zero does not raise: it yields \<open>inf\<close> or \<open>nan\<close> and the run goes on with
  that value, as it does with the complex result of a negative base raised to a
  fractional power. Such values are not real numbers; the model stops there with
  \<open>NotFiniteReal\<close> and says nothing about what follows.
\<close>

datatype fault = ZeroDivisionError | NotFiniteReal

section \<open>Forcing functions\<close>

definition human_population :: "params \<Rightarrow> real \<Rightarrow> fault + real" where
  "human_population p t =
     (let K = human_carrying_capacity p;
          P0 = initial_humans p;
          r = human_intrinsic_growth p
      in if P0 = 0 then Inl ZeroDivisionError
         else let d = 1 + ((K - P0) / P0) * exp (- r * t)
              in if d = 0 then Inl NotFiniteReal else Inr (K / d))"

definition seasonal_rat_carrying_capacity :: "params \<Rightarrow> real \<Rightarrow> real \<Rightarrow> real" where
  "seasonal_rat_carrying_capacity p t mature_palms =
     (let seasonal_factor = 0.5 * (1 + sin (2 * pi * t - pi / 2));
          carrying_capacity_per_tree =
            rat_base_carrying_capacity_per_tree p +
            seasonal_factor *
              (rat_peak_carrying_capacity_per_tree p - rat_base_carrying_capacity_per_tree p)
      in max (rat_minimum_viable_population p) (mature_palms * carrying_capacity_per_tree))"


section \<open>The dynamics function\<close>

text \<open>
  \<open>**\<close> on Python floats: a positive base is the real power; a zero exponent gives 1;
  zero to a negative power raises; a negative base with a fractional exponent gives
  a complex number.
\<close>

definition py_pow :: "real \<Rightarrow> real \<Rightarrow> fault + real" where
  "py_pow x y =
     (if 0 < x then Inr (x powr y)
      else if y = 0 then Inr 1
      else if x = 0 then (if 0 < y then Inr 0 else Inl ZeroDivisionError)
      else if y = of_int \<lfloor>y\<rfloor> then Inr (x powi \<lfloor>y\<rfloor>)
      else Inl NotFiniteReal)"

definition mature_mortality :: "params \<Rightarrow> real \<Rightarrow> fault + real" where
  "mature_mortality p mature_avg_age =
     (let m1 =
            (if mature_avg_age < palm_senescence_age p then palm_natural_mortality_mature p
             else let senescence_factor = (mature_avg_age - palm_senescence_age p) / 100
                  in palm_natural_mortality_mature p * (1 + 2 * senescence_factor))
      in if mature_avg_age > palm_max_lifespan p * 0.8
         then if palm_max_lifespan p * 0.2 = 0 then Inl NotFiniteReal
              else let lifespan_factor =
                         (mature_avg_age - palm_max_lifespan p * 0.8) / (palm_max_lifespan p * 0.2)
                   in Inr (min (m1 * (1 + 5 * lifespan_factor)) 0.1)
         else Inr (min m1 0.1))"

definition rat_harvest :: "params \<Rightarrow> real \<Rightarrow> real \<Rightarrow> real \<Rightarrow> real" where
  "rat_harvest p humans t rats =
     (if enable_human_clearing p
      then let rat_harvest_pressure = humans * rat_harvest_rate p * min 1.0 (t / 150)
           in min rat_harvest_pressure (rats * 0.4)
      else 0)"

definition rat_growth :: "params \<Rightarrow> real \<Rightarrow> real \<Rightarrow> real \<Rightarrow> fault + real" where
  "rat_growth p rats rat_carrying_capacity harvest =
     (if rat_carrying_capacity = 0 then Inl NotFiniteReal
      else if rats > rat_minimum_viable_population p
      then Inr (rats * rat_intrinsic_growth p * (1 - rats / rat_carrying_capacity)
                - rats * rat_natural_mortality p
                - harvest)
      else Inr (rats * rat_intrinsic_growth p * 0.5 * (1 - rats / rat_carrying_capacity)
                - rats * rat_natural_mortality p
                - harvest * (if enable_human_clearing p then 0.1 else 0)))"

definition clearing_rate :: "params \<Rightarrow> real \<Rightarrow> real \<Rightarrow> real \<Rightarrow> fault + real" where
  "clearing_rate p humans t total_palms =
     (if enable_human_clearing p
      then case py_pow (clearing_efficiency_decline p) t of
             Inl e \<Rightarrow> Inl e
           | Inr decline \<Rightarrow>
               (if initial_mature_palms p + initial_young_palms p = 0 then Inl NotFiniteReal
               else let clearing_efficiency =
                          decline * (total_palms / (initial_mature_palms p + initial_young_palms p))
                    in (case py_pow (agricultural_intensification p) t of
                          Inl e \<Rightarrow> Inl e
                        | Inr intensification \<Rightarrow>
                            Inr (humans * clearing_per_person_per_year p * intensification
                                 * clearing_efficiency)))
      else Inr 0)"

definition mature_palm_clearing :: "params \<Rightarrow> real \<Rightarrow> real \<Rightarrow> real" where
  "mature_palm_clearing p clearing mature_palms =
     (let accessible_mature = mature_palms * (1 - palm_refugia_effect p)
      in if enable_human_clearing p then min (clearing * 0.75) (accessible_mature * 0.18) else 0)"

definition mature_palm_recruitment :: "params \<Rightarrow> real \<Rightarrow> fault + real" where
  "mature_palm_recruitment p young_palms =
     (if palm_maturation_time p = 0 then Inl NotFiniteReal
      else Inr (young_palms / palm_maturation_time p))"

definition avg_age_change :: "real \<Rightarrow> real \<Rightarrow> real \<Rightarrow> real" where
  "avg_age_change mature_palms recruitment mature_avg_age =
     (if mature_palms > 100
      then let age_increase = 1.0;
               recruit_age_effect = (recruitment / mature_palms) * (70 - mature_avg_age)
           in age_increase + recruit_age_effect
      else 0)"

definition predation_pressure :: "params \<Rightarrow> real \<Rightarrow> real" where
  "predation_pressure p rats =
     (let rat_density_effect = rats / (rats + 3000)
      in seed_predation_efficiency p * rat_density_effect)"

definition refugia_reproduction :: "params \<Rightarrow> real \<Rightarrow> real" where
  "refugia_reproduction p mature_palms =
     (let refugia_palms = mature_palms * palm_refugia_effect p
      in refugia_palms * palm_max_reproduction p * 1.1)"

definition accessible_reproduction :: "params \<Rightarrow> real \<Rightarrow> real" where
  "accessible_reproduction p mature_palms =
     (let accessible_palms = mature_palms * (1 - palm_refugia_effect p)
      in accessible_palms * palm_max_reproduction p)"

definition refugia_survival :: "params \<Rightarrow> real \<Rightarrow> real \<Rightarrow> real" where
  "refugia_survival p rats mature_palms =
     refugia_reproduction p mature_palms * (1 - predation_pressure p rats * 0.4)"

definition accessible_survival :: "params \<Rightarrow> real \<Rightarrow> real \<Rightarrow> real" where
  "accessible_survival p rats mature_palms =
     accessible_reproduction p mature_palms * (1 - predation_pressure p rats)"

definition young_palm_clearing :: "params \<Rightarrow> real \<Rightarrow> real \<Rightarrow> real" where
  "young_palm_clearing p clearing young_palms =
     (let accessible_young = young_palms * (1 - palm_refugia_effect p)
      in if enable_human_clearing p then min (clearing * 0.25) (accessible_young * 0.12) else 0)"

type_synonym state = "real \<times> real \<times> real \<times> real"

definition ecosystem_dynamics :: "params \<Rightarrow> state \<Rightarrow> real \<Rightarrow> fault + state" where
  "ecosystem_dynamics p st t =
     (case st of (s0, s1, s2, s3) \<Rightarrow>
      let rats = max s0 0;
          mature_palms = max s1 0;
          young_palms = max s2 0;
          mature_avg_age = max s3 0;
          total_palms = mature_palms + young_palms
      in (case human_population p t of
            Inl e \<Rightarrow> Inl e
          | Inr humans \<Rightarrow>
      (case mature_mortality p mature_avg_age of
            Inl e \<Rightarrow> Inl e
          | Inr mortality \<Rightarrow>
      let rat_carrying_capacity = seasonal_rat_carrying_capacity p t mature_palms;
          harvest = rat_harvest p humans t rats
      in (case rat_growth p rats rat_carrying_capacity harvest of
            Inl e \<Rightarrow> Inl e
          | Inr growth \<Rightarrow>
      (case clearing_rate p humans t total_palms of
            Inl e \<Rightarrow> Inl e
          | Inr clearing \<Rightarrow>
      let mature_palm_loss =
            mature_palms * mortality + mature_palm_clearing p clearing mature_palms
      in (case mature_palm_recruitment p young_palms of
            Inl e \<Rightarrow> Inl e
          | Inr recruitment \<Rightarrow>
      let mature_palm_change = recruitment - mature_palm_loss;
          age_change = avg_age_change mature_palms recruitment mature_avg_age;
          actual_reproduction =
            refugia_survival p rats mature_palms + accessible_survival p rats mature_palms;
          young_palm_loss =
            young_palms * palm_natural_mortality_young p + recruitment
            + young_palm_clearing p clearing young_palms;
          young_palm_change = actual_reproduction - young_palm_loss
      in Inr (growth, mature_palm_change, young_palm_change, age_change)))))))"

section \<open>The simulation driver and the comparison layer\<close>











section \<open>Forcing functions: carrying-capacity floor and logistic growth\<close>

text \<open>
  Claim C5. For every time and every mature-palm count, the seasonal rat carrying
  capacity is at least \<open>rat_minimum_viable_population\<close>. The bound comes from the
  outer \<open>max\<close> alone, so it needs no assumption on the palm count.
\<close>

theorem carrying_capacity_floor:
  "seasonal_rat_carrying_capacity p t mature_palms \<ge> rat_minimum_viable_population p"
  by (simp add: seasonal_rat_carrying_capacity_def Let_def)







section \<open>Rules of the dynamics function\<close>

text \<open>
  Claim C3. With the disturbance flag cleared, the clearing rate, the clearing of mature
  and of young palms and the rat harvest are all zero, whatever the human population,
  the time and the state.
\<close>

theorem disturbance_off_zero_pressure:
  assumes "\<not> enable_human_clearing p"
  shows "clearing_rate p humans t total_palms = Inr 0
       \<and> mature_palm_clearing p clearing mature_palms = 0
       \<and> young_palm_clearing p clearing young_palms = 0
       \<and> rat_harvest p humans t rats = 0"
  using assms
  by (simp add: clearing_rate_def mature_palm_clearing_def young_palm_clearing_def
      rat_harvest_def)

theorem disturbance_off_zero_pressure_witness:
  "clearing_rate (init\<lparr>enable_human_clearing := False\<rparr>) 3000 522 15000000 = Inr 0
   \<and> mature_palm_clearing (init\<lparr>enable_human_clearing := False\<rparr>) 7 9000000 = 0
   \<and> young_palm_clearing (init\<lparr>enable_human_clearing := False\<rparr>) 7 6000000 = 0
   \<and> rat_harvest (init\<lparr>enable_human_clearing := False\<rparr>) 3000 522 1000000 = 0"
proof -
  have off: "\<not> enable_human_clearing (init\<lparr>enable_human_clearing := False\<rparr>)"
    by simp
  show ?thesis
    using disturbance_off_zero_pressure [OF off, of 3000 522 15000000 7 9000000 6000000 1000000]
    by simp
qed



lemma senescence_part_mono:
  fixes m0 S a b :: real
  assumes "0 \<le> m0" "a \<le> b"
  shows "(if a < S then m0 else m0 * (1 + 2 * ((a - S) / 100)))
         \<le> (if b < S then m0 else m0 * (1 + 2 * ((b - S) / 100)))"
proof -
  have "m0 * 1 \<le> m0 * (1 + 2 * ((b - S) / 100))" if "S \<le> b"
    using assms(1) that by (intro mult_left_mono) simp_all
  moreover have "m0 * (1 + 2 * ((a - S) / 100)) \<le> m0 * (1 + 2 * ((b - S) / 100))"
    using assms by (intro mult_left_mono) simp_all
  ultimately show ?thesis using assms(2) by auto
qed

lemma senescence_part_nonneg:
  fixes m0 S a :: real
  assumes "0 \<le> m0"
  shows "0 \<le> (if a < S then m0 else m0 * (1 + 2 * ((a - S) / 100)))"
  using assms by simp

lemma lifespan_part_ge_1:
  fixes L a :: real
  assumes "0 < L"
  shows "1 \<le> (if a > L * 0.8 then 1 + 5 * ((a - L * 0.8) / (L * 0.2)) else 1)"
proof (cases "a > L * 0.8")
  case True
  then have "0 \<le> (a - L * 0.8) / (L * 0.2)"
    using assms by (intro divide_nonneg_nonneg) simp_all
  then have "1 \<le> 1 + 5 * ((a - L * 0.8) / (L * 0.2))" by linarith
  with True show ?thesis by (simp only: if_True)
next
  case False
  then show ?thesis by (simp only: if_False)
qed

lemma lifespan_part_mono:
  fixes L a b :: real
  assumes "0 < L" "a \<le> b"
  shows "(if a > L * 0.8 then 1 + 5 * ((a - L * 0.8) / (L * 0.2)) else 1)
         \<le> (if b > L * 0.8 then 1 + 5 * ((b - L * 0.8) / (L * 0.2)) else 1)"
proof (cases "a > L * 0.8")
  case True
  then have b: "b > L * 0.8" using assms(2) by linarith
  have "(a - L * 0.8) / (L * 0.2) \<le> (b - L * 0.8) / (L * 0.2)"
    using assms by (intro divide_right_mono) simp_all
  then have "1 + 5 * ((a - L * 0.8) / (L * 0.2)) \<le> 1 + 5 * ((b - L * 0.8) / (L * 0.2))"
    by linarith
  with True b show ?thesis by (simp only: if_True)
next
  case False
  then show ?thesis
    using lifespan_part_ge_1 [OF assms(1), of b] by (simp only: if_False)
qed

lemma mature_mortality_value:
  assumes "0 < palm_max_lifespan p"
  shows "mature_mortality p a =
     Inr (min ((if a < palm_senescence_age p then palm_natural_mortality_mature p
                else palm_natural_mortality_mature p * (1 + 2 * ((a - palm_senescence_age p) / 100)))
               * (if a > palm_max_lifespan p * 0.8
                  then 1 + 5 * ((a - palm_max_lifespan p * 0.8) / (palm_max_lifespan p * 0.2))
                  else 1))
              0.1)"
  using assms by (simp add: mature_mortality_def Let_def)

text \<open>
  Claim C4. For a non-negative base mortality and a positive maximum lifespan, the
  mortality of mature palms is defined at every age, is non-decreasing in the mean age,
  and never exceeds 0.1.
\<close>

theorem mature_mortality_monotone_capped:
  assumes "0 \<le> palm_natural_mortality_mature p" and "0 < palm_max_lifespan p" and "a \<le> b"
  shows "\<exists>m m'. mature_mortality p a = Inr m \<and> mature_mortality p b = Inr m'
           \<and> m \<le> m' \<and> m' \<le> 0.1"
proof -
  let ?f = "\<lambda>x. if x < palm_senescence_age p then palm_natural_mortality_mature p
                else palm_natural_mortality_mature p * (1 + 2 * ((x - palm_senescence_age p) / 100))"
  let ?g = "\<lambda>x. if x > palm_max_lifespan p * 0.8
                  then 1 + 5 * ((x - palm_max_lifespan p * 0.8) / (palm_max_lifespan p * 0.2))
                  else 1"
  have f: "?f a \<le> ?f b" by (rule senescence_part_mono [OF assms(1,3)])
  have g: "?g a \<le> ?g b" by (rule lifespan_part_mono [OF assms(2,3)])
  have "1 \<le> ?g a" by (rule lifespan_part_ge_1 [OF assms(2)])
  then have g0: "0 \<le> ?g a" by linarith
  have "0 \<le> ?f b" by (rule senescence_part_nonneg [OF assms(1)])
  with f g g0 have "?f a * ?g a \<le> ?f b * ?g b"
    by (intro mult_mono)
  then have "min (?f a * ?g a) 0.1 \<le> min (?f b * ?g b) 0.1"
    by (rule min.mono) simp
  then show ?thesis
    unfolding mature_mortality_value [OF assms(2)] by simp
qed

theorem mature_mortality_monotone_capped_witness:
  "mature_mortality init 150 = Inr (1 / 200)
   \<and> mature_mortality init 450 = Inr (7 / 200)
   \<and> mature_mortality init 1000 = Inr (1 / 10)"
proof -
  have h: "0 \<le> palm_natural_mortality_mature init" "0 < palm_max_lifespan init"
    "(150::real) \<le> 450" "(450::real) \<le> 1000"
    by (simp_all add: init_def)
  have "\<exists>m m'. mature_mortality init 150 = Inr m \<and> mature_mortality init 450 = Inr m' \<and> m \<le> m'"
    using mature_mortality_monotone_capped [OF h(1,2,3)] by blast
  then show ?thesis
    by (simp add: mature_mortality_def init_def)
qed

section \<open>Seed predation\<close>

text \<open>
  The pressure on refugia seeds is not 0.6 times the nominal pressure: at 3000 rats the
  surviving refugia reproduction differs from what a factor 0.6 would give.
\<close>

theorem refugia_discount_counterexample:
  "refugia_survival init 3000 9000000
     \<noteq> refugia_reproduction init 9000000 * (1 - 0.6 * predation_pressure init 3000)"
  by (simp add: refugia_survival_def refugia_reproduction_def predation_pressure_def init_def)

lemma rat_density_mono:
  fixes a b :: real
  assumes "0 \<le> a" "a \<le> b"
  shows "a / (a + 3000) \<le> b / (b + 3000)"
  using assms by (simp add: frac_le_eq field_simps)

lemma rat_density_less_1:
  fixes a :: real
  assumes "0 \<le> a"
  shows "a / (a + 3000) < 1"
  using assms by simp

text \<open>
  Claim C7, as the code has it. For a non-negative rat count the predation pressure is
  \<open>seed_predation_efficiency * (rats / (rats + 3000))\<close>: it grows with the rats, stays
  below the efficiency and is half of it at 3000 rats. Refugia reproduction is reduced
  by 0.4 times this pressure, accessible reproduction by the full pressure.
\<close>

theorem seed_predation_refugia:
  assumes "0 \<le> seed_predation_efficiency p" and "0 \<le> rats" and "rats \<le> rats'"
  shows "predation_pressure p rats = seed_predation_efficiency p * (rats / (rats + 3000))
       \<and> predation_pressure p rats \<le> predation_pressure p rats'
       \<and> predation_pressure p rats' \<le> seed_predation_efficiency p
       \<and> predation_pressure p 3000 = seed_predation_efficiency p / 2
       \<and> refugia_survival p rats mature_palms
           = refugia_reproduction p mature_palms * (1 - 0.4 * predation_pressure p rats)
       \<and> accessible_survival p rats mature_palms
           = accessible_reproduction p mature_palms * (1 - predation_pressure p rats)"
proof -
  have r': "0 \<le> rats'" using assms by simp
  have val: "predation_pressure p x = seed_predation_efficiency p * (x / (x + 3000))" for x
    by (simp add: predation_pressure_def)
  have mono: "predation_pressure p rats \<le> predation_pressure p rats'"
    unfolding val
    using rat_density_mono [OF assms(2,3)] assms(1) by (rule mult_left_mono)
  have "seed_predation_efficiency p * (rats' / (rats' + 3000))
          \<le> seed_predation_efficiency p * 1"
    using assms(1) rat_density_less_1 [OF r'] by (intro mult_left_mono) simp_all
  then have ceil: "predation_pressure p rats' \<le> seed_predation_efficiency p"
    unfolding val by simp
  have half: "predation_pressure p 3000 = seed_predation_efficiency p / 2"
    unfolding val by simp
  have refu: "refugia_survival p rats mature_palms
           = refugia_reproduction p mature_palms * (1 - 0.4 * predation_pressure p rats)"
    unfolding refugia_survival_def by (simp only: mult.commute)
  have acc: "accessible_survival p rats mature_palms
           = accessible_reproduction p mature_palms * (1 - predation_pressure p rats)"
    unfolding accessible_survival_def by (rule refl)
  from val [of rats] mono ceil half refu acc show ?thesis
    by (intro conjI)
qed

theorem seed_predation_refugia_witness:
  "predation_pressure init 3000 = 19 / 40
   \<and> predation_pressure init 3000 \<le> predation_pressure init 6000
   \<and> refugia_survival init 3000 9000000
        = refugia_reproduction init 9000000 * (1 - 0.4 * predation_pressure init 3000)"
proof -
  have h: "0 \<le> seed_predation_efficiency init" "(0::real) \<le> 3000" "(3000::real) \<le> 6000"
    by (simp_all add: init_def)
  have e: "seed_predation_efficiency init = 19 / 20"
    by (simp add: init_def)
  show ?thesis
    using seed_predation_refugia [OF h, of 9000000]
    by (simp add: e)
qed

section \<open>The dynamics function returns\<close>










text \<open>
  The dynamics function reads the state only through its clamped components.
\<close>

lemma ecosystem_dynamics_clamps_state:
  "ecosystem_dynamics p (s0, s1, s2, s3) t
     = ecosystem_dynamics p (max s0 0, max s1 0, max s2 0, max s3 0) t"
  by (simp add: ecosystem_dynamics_def)

section \<open>Configurations are not validated\<close>




section \<open>The comparison reassigns the flag of the engine\<close>



end
